theory Spec2Isabelle
  imports Complex_Main
begin

section \<open>Configuration of RepLKNet: \<open>image_classification/RepLKNet/config.py\<close>\<close>

text \<open>
  The module builds a tree of default settings (\<open>_C\<close>, a \<open>yacs\<close> \<open>CfgNode\<close>), overrides it
  from YAML files that may chain to base files (\<open>_update_config_from_file\<close>), and overrides it
  again from parsed command-line options (\<open>update_config\<close>). \<open>get_config\<close> composes the
  first two.

  The module's own three functions are embedded from \<open>config.py\<close>. They call methods of
  \<open>yacs.config.CfgNode\<close> (\<open>defrost\<close>, \<open>freeze\<close>, \<open>merge_from_file\<close>, \<open>clone\<close>, attribute
  assignment) and of the Python standard library (\<open>os.path\<close>); those are embedded as the library
  (yacs 0.1.8, \<open>posixpath\<close>) defines them, under the library's names.
\<close>

subsection \<open>Values\<close>

text \<open>
  A Python value that a YAML document or a command-line option can hold. A float is
  identified with the number its literal denotes; no arithmetic is done on it. A dictionary
  keeps its insertion order, so it is an association list; its keys are strings.
\<close>

datatype val =
    VNone
  | VBool bool
  | VInt int
  | VFloat real
  | VStr string
  | VList "val list"
  | VTuple "val list"
  | VDict "(string \<times> val) list"

text \<open>
  A configuration tree: an attribute of a \<open>CfgNode\<close> holds either a plain value or a nested
  \<open>CfgNode\<close>. Each \<open>CfgNode\<close> carries its own \<open>__immutable__\<close> flag.
\<close>

datatype config =
    Leaf val
  | Node bool "(string \<times> config) list"

text \<open>The exceptions the code can raise; \<open>KeyError\<close> and \<open>ValueError\<close> carry the full key.\<close>

datatype error =
    IOError
  | ParseError
  | AttributeError
  | TypeError
  | AssertionError
  | UnsupportedFile
  | KeyError "string list"
  | ValueError "string list"

text \<open>
  A call on a mutable object either returns or raises; in both cases the object is left in
  some state, which the result carries.
\<close>

datatype 'a result = Done 'a | Raised error 'a

fun and_then :: "'a result \<Rightarrow> ('a \<Rightarrow> 'a result) \<Rightarrow> 'a result" where
  "and_then (Done c) f = f c"
| "and_then (Raised e c) f = Raised e c"

text \<open>Python's truth value of an object (\<open>if x:\<close>, \<open>not x\<close>).\<close>

fun truthy :: "val \<Rightarrow> bool" where
  "truthy VNone = False"
| "truthy (VBool b) = b"
| "truthy (VInt n) = (n \<noteq> 0)"
| "truthy (VFloat x) = (x \<noteq> 0)"
| "truthy (VStr s) = (s \<noteq> [])"
| "truthy (VList xs) = (xs \<noteq> [])"
| "truthy (VTuple xs) = (xs \<noteq> [])"
| "truthy (VDict kvs) = (kvs \<noteq> [])"

fun truthy_config :: "config \<Rightarrow> bool" where
  "truthy_config (Leaf v) = truthy v"
| "truthy_config (Node f kvs) = (kvs \<noteq> [])"

subsection \<open>The \<open>CfgNode\<close> operations of yacs\<close>

text \<open>\<open>d[k] = v\<close> on a dictionary: an existing key keeps its place, a new key goes last.\<close>

fun setitem :: "string \<Rightarrow> 'a \<Rightarrow> (string \<times> 'a) list \<Rightarrow> (string \<times> 'a) list" where
  "setitem k v [] = [(k, v)]"
| "setitem k v ((k', v') # kvs) =
     (if k' = k then (k, v) # kvs else (k', v') # setitem k v kvs)"

text \<open>
  \<open>CfgNode._immutable\<close>: sets the flag of the node and of every \<open>CfgNode\<close> among its values,
  recursively. \<open>freeze\<close> is \<open>_immutable(True)\<close> and \<open>defrost\<close> is \<open>_immutable(False)\<close>.
\<close>

fun immutable :: "bool \<Rightarrow> config \<Rightarrow> config"
and immutable_items :: "bool \<Rightarrow> (string \<times> config) list \<Rightarrow> (string \<times> config) list" where
  "immutable b (Leaf v) = Leaf v"
| "immutable b (Node f kvs) = Node b (immutable_items b kvs)"
| "immutable_items b [] = []"
| "immutable_items b ((k, c) # kvs) = (k, immutable b c) # immutable_items b kvs"

definition freeze :: "config \<Rightarrow> config" where
  "freeze c = immutable True c"

definition defrost :: "config \<Rightarrow> config" where
  "defrost c = immutable False c"

fun is_frozen :: "config \<Rightarrow> bool" where
  "is_frozen (Node f kvs) = f"
| "is_frozen (Leaf v) = False"

text \<open>
  \<open>CfgNode.__setattr__\<close>: refuses when the node is frozen (yacs raises \<open>AttributeError\<close>),
  asserts that the value has a valid type (a plain \<open>dict\<close> has not), then stores with
  \<open>self[name] = value\<close>. An object that is not a \<open>CfgNode\<close> has no such attribute to set.
\<close>

fun valid_type :: "val \<Rightarrow> bool" where
  "valid_type (VDict kvs) = False"
| "valid_type v = True"

fun setattr :: "config \<Rightarrow> string \<Rightarrow> val \<Rightarrow> config result" where
  "setattr (Node f kvs) name v =
     (if f then Raised AttributeError (Node f kvs)
      else if \<not> valid_type v then Raised AssertionError (Node f kvs)
      else Done (Node f (setitem name (Leaf v) kvs)))"
| "setattr (Leaf w) name v = Raised AttributeError (Leaf w)"

text \<open>
  \<open>config.GROUP.NAME = v\<close>: \<open>config.GROUP\<close> is \<open>CfgNode.__getattr__\<close> (an \<open>AttributeError\<close>
  when the key is missing), and the assignment is \<open>__setattr__\<close> on the object it returns; the
  group object is changed in place, so the root sees the change.
\<close>

fun setattr2 :: "config \<Rightarrow> string \<Rightarrow> string \<Rightarrow> val \<Rightarrow> config result" where
  "setattr2 (Node f kvs) grp name v =
     (case map_of kvs grp of
        None \<Rightarrow> Raised AttributeError (Node f kvs)
      | Some g \<Rightarrow>
          (case setattr g name v of
             Done g' \<Rightarrow> Done (Node f (setitem grp g' kvs))
           | Raised e g' \<Rightarrow> Raised e (Node f (setitem grp g' kvs))))"
| "setattr2 (Leaf w) grp name v = Raised AttributeError (Leaf w)"

text \<open>Reading \<open>config.NAME\<close> and \<open>config.GROUP.NAME\<close>; \<open>None\<close> stands for \<open>AttributeError\<close>.\<close>

fun getattr :: "config \<Rightarrow> string \<Rightarrow> config option" where
  "getattr (Node f kvs) name = map_of kvs name"
| "getattr (Leaf w) name = None"

definition getattr2 :: "config \<Rightarrow> string \<Rightarrow> string \<Rightarrow> config option" where
  "getattr2 c grp name = (case getattr c grp of None \<Rightarrow> None | Some g \<Rightarrow> getattr g name)"

subsection \<open>Merging a loaded document: \<open>_merge_a_into_b\<close> of yacs\<close>

text \<open>The run-time type of a value, which the merge compares.\<close>

datatype pytype = TNone | TBool | TInt | TFloat | TStr | TList | TTuple | TDict | TCfgNode

fun type_of_val :: "val \<Rightarrow> pytype" where
  "type_of_val VNone = TNone"
| "type_of_val (VBool b) = TBool"
| "type_of_val (VInt n) = TInt"
| "type_of_val (VFloat x) = TFloat"
| "type_of_val (VStr s) = TStr"
| "type_of_val (VList xs) = TList"
| "type_of_val (VTuple xs) = TTuple"
| "type_of_val (VDict kvs) = TDict"

fun type_of_config :: "config \<Rightarrow> pytype" where
  "type_of_config (Leaf v) = type_of_val v"
| "type_of_config (Node f kvs) = TCfgNode"

text \<open>\<open>_VALID_TYPES = {tuple, list, str, int, float, bool, type(None)}\<close>.\<close>

fun in_VALID_TYPES :: "pytype \<Rightarrow> bool" where
  "in_VALID_TYPES TDict = False"
| "in_VALID_TYPES TCfgNode = False"
| "in_VALID_TYPES t = True"

text \<open>
  \<open>CfgNode._decode_cfg_value\<close> on a value that is not a dictionary: a string is passed to
  \<open>ast.literal_eval\<close> and replaced by the literal it denotes, and kept when \<open>literal_eval\<close>
  raises; every other value is returned as it is. \<open>literal_eval\<close> is a parameter \<open>ev\<close> of the
  model: \<open>ev s = Some v\<close> when the string \<open>s\<close> is the Python literal \<open>v\<close>, \<open>None\<close> when it is
  not a literal.
\<close>

type_synonym evaluator = "string \<Rightarrow> val option"

fun decode_cfg_value :: "evaluator \<Rightarrow> val \<Rightarrow> val" where
  "decode_cfg_value ev (VStr s) = (case ev s of None \<Rightarrow> VStr s | Some w \<Rightarrow> w)"
| "decode_cfg_value ev v = v"

text \<open>
  \<open>_check_and_coerce_cfg_value_type\<close>: the replacement is accepted when its type is the type
  of the original, when one of the two is \<open>None\<close> and the other has a valid type, and when a
  tuple replaces a list or a list a tuple (it is then cast); otherwise \<open>ValueError\<close>, here
  \<open>None\<close>.
\<close>

fun cast_list_tuple :: "val \<Rightarrow> pytype \<Rightarrow> val option" where
  "cast_list_tuple (VTuple xs) TList = Some (VList xs)"
| "cast_list_tuple (VList xs) TTuple = Some (VTuple xs)"
| "cast_list_tuple v t = None"

definition check_and_coerce_cfg_value_type :: "val \<Rightarrow> config \<Rightarrow> val option" where
  "check_and_coerce_cfg_value_type replacement original =
     (let original_type = type_of_config original;
          replacement_type = type_of_val replacement
      in if replacement_type = original_type then Some replacement
         else if (replacement_type = TNone \<and> in_VALID_TYPES original_type)
               \<or> (original_type = TNone \<and> in_VALID_TYPES replacement_type)
         then Some replacement
         else cast_list_tuple replacement original_type)"

text \<open>
  \<open>_merge_a_into_b(a, b, root, key_list)\<close>: the items of \<open>a\<close> are taken in order. A key that
  \<open>b\<close> lacks raises \<open>KeyError\<close> (no key is registered as deprecated or renamed, and no node
  allows new keys); a dictionary of \<open>a\<close> is a \<open>CfgNode\<close> after loading, and is merged
  recursively into the \<open>CfgNode\<close> that \<open>b\<close> holds there; any other value is decoded, checked
  against the old value and stored with \<open>b[k] = v\<close>. The arguments \<open>a\<close> and \<open>b\<close> are the items of
  the two nodes; an exception leaves in \<open>b\<close> what was stored before it.
\<close>

fun merge_a_into_b ::
  "evaluator \<Rightarrow> (string \<times> val) list \<Rightarrow> (string \<times> config) list \<Rightarrow> string list
    \<Rightarrow> (string \<times> config) list result" where
  "merge_a_into_b ev [] b key_list = Done b"
| "merge_a_into_b ev ((k, VDict a') # a) b key_list =
     (case map_of b k of
        None \<Rightarrow> Raised (KeyError (key_list @ [k])) b
      | Some (Leaf w) \<Rightarrow> Raised (ValueError (key_list @ [k])) b
      | Some (Node f kids) \<Rightarrow>
          (case merge_a_into_b ev a' kids (key_list @ [k]) of
             Raised e kids' \<Rightarrow> Raised e (setitem k (Node f kids') b)
           | Done kids' \<Rightarrow> merge_a_into_b ev a (setitem k (Node f kids') b) key_list))"
| "merge_a_into_b ev ((k, v0) # a) b key_list =
     (case map_of b k of
        None \<Rightarrow> Raised (KeyError (key_list @ [k])) b
      | Some original \<Rightarrow>
          (case check_and_coerce_cfg_value_type (decode_cfg_value ev v0) original of
             None \<Rightarrow> Raised (ValueError (key_list @ [k])) b
           | Some v \<Rightarrow> merge_a_into_b ev a (setitem k (Leaf v) b) key_list))"

subsection \<open>Files and paths\<close>

text \<open>
  The file system maps a path to what \<open>yaml.load\<close> makes of the file there: no file
  (\<open>open\<close> raises), a malformed document (the parser raises), or the loaded value.
\<close>

datatype yaml_file = Malformed | Doc val

type_synonym filesystem = "string \<Rightarrow> yaml_file option"

text \<open>\<open>posixpath.dirname\<close> and \<open>posixpath.join\<close> of two components.\<close>

definition rstrip_slash :: "string \<Rightarrow> string" where
  "rstrip_slash s = rev (dropWhile (\<lambda>c. c = CHR ''/'') (rev s))"

definition dirname :: "string \<Rightarrow> string" where
  "dirname p =
     (let head = rev (dropWhile (\<lambda>c. c \<noteq> CHR ''/'') (rev p))
      in if head \<noteq> [] \<and> \<not> list_all (\<lambda>c. c = CHR ''/'') head then rstrip_slash head else head)"

definition join :: "string \<Rightarrow> string \<Rightarrow> string" where
  "join a b =
     (if b \<noteq> [] \<and> hd b = CHR ''/'' then b
      else if a = [] \<or> last a = CHR ''/'' then a @ b
      else a @ ''/'' @ b)"

text \<open>
  The extension that \<open>posixpath.splitext\<close> finds: the part of the last path component from
  its last dot on, unless only dots precede that dot in the component.
\<close>

definition splitext_ext :: "string \<Rightarrow> string" where
  "splitext_ext p =
     (let base = rev (takeWhile (\<lambda>c. c \<noteq> CHR ''/'') (rev p));
          suffix = rev (takeWhile (\<lambda>c. c \<noteq> CHR ''.'') (rev base));
          stem = take (length base - length suffix - 1) base
      in if CHR ''.'' \<in> set base \<and> \<not> list_all (\<lambda>c. c = CHR ''.'') stem
         then CHR ''.'' # suffix else [])"

text \<open>
  \<open>CfgNode.merge_from_file\<close>: opens the file, loads it by its extension and merges the
  document into the node. yacs loads the extensions \<open>.yaml\<close>, \<open>.yml\<close> and the empty one as
  YAML; it imports a \<open>.py\<close> file as a module, which is not modelled, and refuses every other
  extension: both are \<open>UnsupportedFile\<close> here. An empty document loads as \<open>None\<close> and merges
  nothing. The merge writes with \<open>b[k] = v\<close>, which the \<open>__immutable__\<close> flag does not guard.
\<close>

definition load_cfg :: "filesystem \<Rightarrow> string \<Rightarrow> error + (string \<times> val) list" where
  "load_cfg fs cfg_filename =
     (case fs cfg_filename of
        None \<Rightarrow> Inl IOError
      | Some f \<Rightarrow>
          if splitext_ext cfg_filename \<notin> {[], ''.yaml'', ''.yml''} then Inl UnsupportedFile
          else (case f of
                  Malformed \<Rightarrow> Inl ParseError
                | Doc VNone \<Rightarrow> Inr []
                | Doc (VDict a) \<Rightarrow> Inr a
                | Doc v \<Rightarrow> Inl AttributeError))"

definition merge_from_file :: "evaluator \<Rightarrow> filesystem \<Rightarrow> config \<Rightarrow> string \<Rightarrow> config result" where
  "merge_from_file ev fs config cfg_filename =
     (case config of
        Leaf w \<Rightarrow> Raised AttributeError config
      | Node f b \<Rightarrow>
          (case load_cfg fs cfg_filename of
             Inl e \<Rightarrow> Raised e config
           | Inr a \<Rightarrow>
               (case merge_a_into_b ev a b [] of
                  Done b' \<Rightarrow> Done (Node f b')
                | Raised e b' \<Rightarrow> Raised e (Node f b'))))"

subsection \<open>The default tree \<open>_C\<close> (lines 23 to 110)\<close>

definition C_DATA :: config where
  "C_DATA = Node False
     [(''BATCH_SIZE'', Leaf (VInt 64)),
      (''BATCH_SIZE_EVAL'', Leaf VNone),
      (''DATA_PATH'', Leaf (VStr ''/dataset/imagenet/'')),
      (''DATASET'', Leaf (VStr ''imagenet2012'')),
      (''IMAGE_SIZE'', Leaf (VInt 224)),
      (''IMAGE_CHANNELS'', Leaf (VInt 3)),
      (''CROP_PCT'', Leaf (VFloat 0.875)),
      (''NUM_WORKERS'', Leaf (VInt 2)),
      (''IMAGENET_MEAN'', Leaf (VList [VFloat 0.485, VFloat 0.456, VFloat 0.406])),
      (''IMAGENET_STD'', Leaf (VList [VFloat 0.229, VFloat 0.224, VFloat 0.225]))]"

definition C_MODEL :: config where
  "C_MODEL = Node False
     [(''TYPE'', Leaf (VStr ''RepLKNet'')),
      (''NAME'', Leaf (VStr ''replknet_31b'')),
      (''RESUME'', Leaf VNone),
      (''PRETRAINED'', Leaf VNone),
      (''NUM_CLASSES'', Leaf (VInt 1000)),
      (''DROPPATH'', Leaf (VFloat 0.5)),
      (''LARGE_KERNEL_SIZES'', Leaf (VList [VInt 31, VInt 28, VInt 27, VInt 13])),
      (''LAYERS'', Leaf (VList [VInt 2, VInt 2, VInt 18, VInt 2])),
      (''CHANNELS'', Leaf (VList [VInt 128, VInt 256, VInt 512, VInt 1024])),
      (''DW_RATIO'', Leaf (VFloat 1.0)),
      (''FFN_RATIO'', Leaf (VFloat 4.0)),
      (''SMALL_KERNEL'', Leaf (VInt 5)),
      (''SMALL_KERNEL_MERGED'', Leaf (VBool False)),
      (''NORM_INTER_FEATURES'', Leaf (VBool False)),
      (''OUT_INDICES'', Leaf VNone),
      (''SYNC_BN'', Leaf (VBool False))]"

definition C_TRAIN_OPTIMIZER :: config where
  "C_TRAIN_OPTIMIZER = Node False
     [(''NAME'', Leaf (VStr ''AdamW'')),
      (''EPS'', Leaf (VFloat 0.00000001)),
      (''BETAS'', Leaf (VTuple [VFloat 0.9, VFloat 0.999]))]"

definition C_TRAIN :: config where
  "C_TRAIN = Node False
     [(''LAST_EPOCH'', Leaf (VInt 0)),
      (''NUM_EPOCHS'', Leaf (VInt 300)),
      (''WARMUP_EPOCHS'', Leaf (VInt 10)),
      (''WEIGHT_DECAY'', Leaf (VFloat 0.05)),
      (''BASE_LR'', Leaf (VFloat 0.004)),
      (''WARMUP_START_LR'', Leaf (VFloat 0.000001)),
      (''END_LR'', Leaf (VFloat 0.000001)),
      (''GRAD_CLIP'', Leaf VNone),
      (''ACCUM_ITER'', Leaf (VInt 1)),
      (''LINEAR_SCALED_LR'', Leaf (VInt 256)),
      (''OPTIMIZER'', C_TRAIN_OPTIMIZER),
      (''MODEL_EMA'', Leaf (VBool True)),
      (''MODEL_EMA_DECAY'', Leaf (VFloat 0.9999)),
      (''MODEL_EMA_FORCE_CPU'', Leaf (VBool False)),
      (''SMOOTHING'', Leaf (VFloat 0.1)),
      (''COLOR_JITTER'', Leaf (VFloat 0.4)),
      (''AUTO_AUGMENT'', Leaf (VBool True)),
      (''RAND_AUGMENT'', Leaf (VBool False)),
      (''RAND_AUGMENT_LAYERS'', Leaf (VInt 2)),
      (''RAND_AUGMENT_MAGNITUDE'', Leaf (VInt 9)),
      (''MIXUP_ALPHA'', Leaf (VFloat 0.8)),
      (''MIXUP_PROB'', Leaf (VFloat 1.0)),
      (''MIXUP_SWITCH_PROB'', Leaf (VFloat 0.5)),
      (''MIXUP_MODE'', Leaf (VStr ''batch'')),
      (''CUTMIX_ALPHA'', Leaf (VFloat 1.0)),
      (''CUTMIX_MINMAX'', Leaf VNone),
      (''RANDOM_ERASE_PROB'', Leaf (VFloat 0.25)),
      (''RANDOM_ERASE_MODE'', Leaf (VStr ''pixel'')),
      (''RANDOM_ERASE_COUNT'', Leaf (VInt 1)),
      (''RANDOM_ERASE_SPLIT'', Leaf (VBool False))]"

definition C_root :: config where
  "C_root = Node False
     [(''BASE'', Leaf (VList [VStr []])),
      (''DATA'', C_DATA),
      (''MODEL'', C_MODEL),
      (''TRAIN'', C_TRAIN),
      (''SAVE'', Leaf (VStr ''./output'')),
      (''SAVE_FREQ'', Leaf (VInt 10)),
      (''REPORT_FREQ'', Leaf (VInt 20)),
      (''VALIDATE_FREQ'', Leaf (VInt 1)),
      (''SEED'', Leaf (VInt 42)),
      (''EVAL'', Leaf (VBool False)),
      (''AMP'', Leaf (VBool False))]"

subsection \<open>\<open>_update_config_from_file\<close> (lines 113 to 131)\<close>

text \<open>
  \<open>yaml_cfg.setdefault('BASE', [''])\<close> and the iteration over what it returns: the document
  must be a dictionary to have \<open>setdefault\<close>; a list or tuple yields its elements, a string
  its characters, a dictionary its keys, and nothing else can be iterated.
\<close>

fun setdefault_BASE :: "val \<Rightarrow> error + val" where
  "setdefault_BASE (VDict d) =
     Inr (case map_of d ''BASE'' of None \<Rightarrow> VList [VStr []] | Some v \<Rightarrow> v)"
| "setdefault_BASE v = Inl AttributeError"

fun iterate :: "val \<Rightarrow> error + val list" where
  "iterate (VList xs) = Inr xs"
| "iterate (VTuple xs) = Inr xs"
| "iterate (VStr s) = Inr (map (\<lambda>c. VStr [c]) s)"
| "iterate (VDict kvs) = Inr (map (\<lambda>kv. VStr (fst kv)) kvs)"
| "iterate v = Inl TypeError"

text \<open>
  The loop over the base entries, with the recursive call as the parameter \<open>rec\<close>: an entry
  that is false in Python's sense is skipped; \<open>os.path.join\<close> raises \<open>TypeError\<close> on an entry
  that is not a string. \<open>None\<close> is a call that did not return.
\<close>

fun for_bases ::
  "(config \<Rightarrow> string \<Rightarrow> config result option) \<Rightarrow> string \<Rightarrow> val list \<Rightarrow> config
    \<Rightarrow> config result option" where
  "for_bases rec dir [] config = Some (Done config)"
| "for_bases rec dir (cfg # rest) config =
     (if truthy cfg then
        (case cfg of
           VStr s \<Rightarrow>
             (case rec config (join dir s) of
                None \<Rightarrow> None
              | Some (Raised e config') \<Rightarrow> Some (Raised e config')
              | Some (Done config') \<Rightarrow> for_bases rec dir rest config')
         | _ \<Rightarrow> Some (Raised TypeError config))
      else for_bases rec dir rest config)"

text \<open>
  The function calls itself once for each base entry, and nothing bounds the chain of files
  (a file may name itself), so the model counts the depth of the calls: \<open>None\<close> when the
  depth \<open>n\<close> does not suffice.
\<close>

fun update_config_from_file ::
  "nat \<Rightarrow> evaluator \<Rightarrow> filesystem \<Rightarrow> config \<Rightarrow> string \<Rightarrow> config result option" where
  "update_config_from_file 0 ev fs config cfg_file = None"
| "update_config_from_file (Suc n) ev fs (Leaf w) cfg_file = Some (Raised AttributeError (Leaf w))"
| "update_config_from_file (Suc n) ev fs (Node f kvs) cfg_file =
     (let config = defrost (Node f kvs) in
      case fs cfg_file of
        None \<Rightarrow> Some (Raised IOError config)
      | Some Malformed \<Rightarrow> Some (Raised ParseError config)
      | Some (Doc yaml_cfg) \<Rightarrow>
          (case setdefault_BASE yaml_cfg of
             Inl e \<Rightarrow> Some (Raised e config)
           | Inr base \<Rightarrow>
               (case iterate base of
                  Inl e \<Rightarrow> Some (Raised e config)
                | Inr cfgs \<Rightarrow>
                    (case for_bases (update_config_from_file n ev fs) (dirname cfg_file) cfgs config of
                       None \<Rightarrow> None
                     | Some (Raised e config') \<Rightarrow> Some (Raised e config')
                     | Some (Done config') \<Rightarrow>
                         Some (and_then (merge_from_file ev fs config' cfg_file)
                                 (\<lambda>c. Done (freeze c)))))))"

subsection \<open>\<open>update_config\<close> (lines 134 to 169)\<close>

text \<open>
  The parsed command-line options. \<open>args.cfg\<close> is a path or \<open>None\<close>; every other option
  holds whatever value the parser gave it, \<open>VNone\<close> when the option is absent.
\<close>

record args =
  cfg :: "string option"
  dataset :: val
  batch_size :: val
  batch_size_eval :: val
  image_size :: val
  accum_iter :: val
  data_path :: val
  eval :: val
  pretrained :: val
  resume :: val
  last_epoch :: val
  amp :: val

text \<open>\<open>if args.cfg:\<close> holds for a path that is not the empty string.\<close>

fun truthy_path :: "string option \<Rightarrow> bool" where
  "truthy_path None = False"
| "truthy_path (Some p) = (p \<noteq> [])"

text \<open>\<open>config.AMP = not config.EVAL\<close>.\<close>

definition set_AMP_not_EVAL :: "config \<Rightarrow> config result" where
  "set_AMP_not_EVAL config =
     (case getattr config ''EVAL'' of
        None \<Rightarrow> Raised AttributeError config
      | Some e \<Rightarrow> setattr config ''AMP'' (VBool (\<not> truthy_config e)))"

text \<open>\<open>if b: ...\<close> around a statement that may raise.\<close>

definition guarded :: "bool \<Rightarrow> (config \<Rightarrow> config result) \<Rightarrow> config \<Rightarrow> config result" where
  "guarded b f config = (if b then f config else Done config)"

text \<open>Lines 144 to 169: \<open>config.defrost()\<close> and the eleven guarded assignments, in order.\<close>

definition update_config_args :: "config \<Rightarrow> args \<Rightarrow> config result" where
  "update_config_args config0 args =
     (case config0 of
        Leaf w \<Rightarrow> Raised AttributeError config0
      | Node f kvs \<Rightarrow>
          foldl and_then (Done (defrost config0))
            [guarded (truthy (dataset args))
               (\<lambda>config. setattr2 config ''DATA'' ''DATASET'' (dataset args)),
             guarded (truthy (batch_size args))
               (\<lambda>config. and_then (setattr2 config ''DATA'' ''BATCH_SIZE'' (batch_size args))
                  (\<lambda>config. setattr2 config ''DATA'' ''BATCH_SIZE_EVAL'' (batch_size args))),
             guarded (truthy (batch_size_eval args))
               (\<lambda>config. setattr2 config ''DATA'' ''BATCH_SIZE_EVAL'' (batch_size_eval args)),
             guarded (truthy (image_size args))
               (\<lambda>config. setattr2 config ''DATA'' ''IMAGE_SIZE'' (image_size args)),
             guarded (truthy (accum_iter args))
               (\<lambda>config. setattr2 config ''TRAIN'' ''ACCUM_ITER'' (accum_iter args)),
             guarded (truthy (data_path args))
               (\<lambda>config. setattr2 config ''DATA'' ''DATA_PATH'' (data_path args)),
             guarded (truthy (eval args))
               (\<lambda>config. setattr config ''EVAL'' (VBool True)),
             guarded (truthy (pretrained args))
               (\<lambda>config. setattr2 config ''MODEL'' ''PRETRAINED'' (pretrained args)),
             guarded (truthy (resume args))
               (\<lambda>config. setattr2 config ''MODEL'' ''RESUME'' (resume args)),
             guarded (truthy (last_epoch args))
               (\<lambda>config. setattr2 config ''TRAIN'' ''LAST_EPOCH'' (last_epoch args)),
             guarded (truthy (amp args)) set_AMP_not_EVAL])"

text \<open>The whole function: the file named by \<open>args.cfg\<close> first, when there is one.\<close>

definition update_config ::
  "nat \<Rightarrow> evaluator \<Rightarrow> filesystem \<Rightarrow> config \<Rightarrow> args \<Rightarrow> config result option" where
  "update_config n ev fs config args =
     (case (if truthy_path (cfg args)
            then update_config_from_file n ev fs config (the (cfg args))
            else Some (Done config)) of
        None \<Rightarrow> None
      | Some (Raised e config') \<Rightarrow> Some (Raised e config')
      | Some (Done config') \<Rightarrow> Some (update_config_args config' args))"

subsection \<open>\<open>get_config\<close> (lines 172 to 177)\<close>

text \<open>
  \<open>CfgNode.clone\<close> is \<open>copy.deepcopy\<close>: as a value the copy is the tree it was made from. That
  the copy shares no node with the original is a fact about object identity, which the store
  at the end of this theory makes explicit.
\<close>

definition clone :: "config \<Rightarrow> config" where
  "clone c = c"

definition get_config ::
  "nat \<Rightarrow> evaluator \<Rightarrow> filesystem \<Rightarrow> string option \<Rightarrow> config result option" where
  "get_config n ev fs cfg_file =
     (let config = clone C_root in
      if truthy_path cfg_file
      then update_config_from_file n ev fs config (the cfg_file)
      else Some (Done config))"

text \<open>The options of a command line that gives none.\<close>

definition no_args :: args where
  "no_args = \<lparr>cfg = None, dataset = VNone, batch_size = VNone, batch_size_eval = VNone,
     image_size = VNone, accum_iter = VNone, data_path = VNone, eval = VNone,
     pretrained = VNone, resume = VNone, last_epoch = VNone, amp = VNone\<rparr>"

subsection \<open>What the assignments of \<open>update_config\<close> need and what they store\<close>

text \<open>
  The assignments of \<open>update_config\<close> go through the groups \<open>DATA\<close>, \<open>MODEL\<close> and \<open>TRAIN\<close>,
  which must be \<open>CfgNode\<close>s of the configuration, and \<open>not config.EVAL\<close> reads the key \<open>EVAL\<close>.
\<close>

fun is_node :: "config \<Rightarrow> bool" where
  "is_node (Node f kvs) = True"
| "is_node (Leaf v) = False"

definition has_group :: "config \<Rightarrow> string \<Rightarrow> bool" where
  "has_group c g = (case getattr c g of Some (Node f kids) \<Rightarrow> True | _ \<Rightarrow> False)"

definition well_shaped :: "config \<Rightarrow> bool" where
  "well_shaped c \<longleftrightarrow>
     is_node c \<and> has_group c ''DATA'' \<and> has_group c ''MODEL'' \<and> has_group c ''TRAIN''
       \<and> getattr c ''EVAL'' \<noteq> None"

text \<open>Every option holds a value that \<open>__setattr__\<close> accepts (no plain dictionary).\<close>

definition valid_args :: "args \<Rightarrow> bool" where
  "valid_args a \<longleftrightarrow>
     valid_type (dataset a) \<and> valid_type (batch_size a) \<and> valid_type (batch_size_eval a)
       \<and> valid_type (image_size a) \<and> valid_type (accum_iter a) \<and> valid_type (data_path a)
       \<and> valid_type (pretrained a) \<and> valid_type (resume a) \<and> valid_type (last_epoch a)"

text \<open>A node whose own flag is off, and a group that is such a node.\<close>

fun is_open_node :: "config \<Rightarrow> bool" where
  "is_open_node (Node f kvs) = (\<not> f)"
| "is_open_node (Leaf v) = False"

definition open_group :: "config \<Rightarrow> string \<Rightarrow> bool" where
  "open_group c g = (case getattr c g of Some n \<Rightarrow> is_open_node n | None \<Rightarrow> False)"

text \<open>
  The tree after a guarded store that succeeds: \<open>put b n v\<close> is \<open>if b: config.n = v\<close> and
  \<open>put2 b g n v\<close> is \<open>if b: config.g.n = v\<close>.
\<close>

fun put :: "bool \<Rightarrow> string \<Rightarrow> val \<Rightarrow> config \<Rightarrow> config" where
  "put b n v (Node f kvs) = (if b then Node f (setitem n (Leaf v) kvs) else Node f kvs)"
| "put b n v (Leaf w) = Leaf w"

fun put2 :: "bool \<Rightarrow> string \<Rightarrow> string \<Rightarrow> val \<Rightarrow> config \<Rightarrow> config" where
  "put2 b g n v (Node f kvs) =
     (case map_of kvs g of
        Some (Node f' kids) \<Rightarrow>
          (if b then Node f (setitem g (Node f' (setitem n (Leaf v) kids)) kvs) else Node f kvs)
      | _ \<Rightarrow> Node f kvs)"
| "put2 b g n v (Leaf w) = Leaf w"

text \<open>The tree that \<open>update_config\<close> leaves when every assignment succeeds.\<close>

definition applied_args :: "config \<Rightarrow> args \<Rightarrow> config" where
  "applied_args config0 args =
     (let c0 = defrost config0;
          c1 = put2 (truthy (dataset args)) ''DATA'' ''DATASET'' (dataset args) c0;
          c2 = put2 (truthy (batch_size args)) ''DATA'' ''BATCH_SIZE_EVAL'' (batch_size args)
                 (put2 (truthy (batch_size args)) ''DATA'' ''BATCH_SIZE'' (batch_size args) c1);
          c3 = put2 (truthy (batch_size_eval args)) ''DATA'' ''BATCH_SIZE_EVAL'' (batch_size_eval args) c2;
          c4 = put2 (truthy (image_size args)) ''DATA'' ''IMAGE_SIZE'' (image_size args) c3;
          c5 = put2 (truthy (accum_iter args)) ''TRAIN'' ''ACCUM_ITER'' (accum_iter args) c4;
          c6 = put2 (truthy (data_path args)) ''DATA'' ''DATA_PATH'' (data_path args) c5;
          c7 = put (truthy (eval args)) ''EVAL'' (VBool True) c6;
          c8 = put2 (truthy (pretrained args)) ''MODEL'' ''PRETRAINED'' (pretrained args) c7;
          c9 = put2 (truthy (resume args)) ''MODEL'' ''RESUME'' (resume args) c8;
          c10 = put2 (truthy (last_epoch args)) ''TRAIN'' ''LAST_EPOCH'' (last_epoch args) c9
      in put (truthy (amp args)) ''AMP''
           (VBool (\<not> (case getattr c10 ''EVAL'' of Some e \<Rightarrow> truthy_config e | None \<Rightarrow> False))) c10)"


subsection \<open>Merging files one after the other\<close>

text \<open>
  The order in which \<open>_update_config_from_file\<close> gets to the files, written as a list of
  actions: the files of the base entries first, each with its own bases before it, from left
  to right, then the file itself. A file that cannot be read, or whose \<open>BASE\<close> cannot be
  walked, ends the list with the exception. \<open>None\<close> when the depth \<open>n\<close> does not suffice.
\<close>

datatype action = Merge string | Fail error

fun failing :: "action list \<Rightarrow> bool" where
  "failing [] = False"
| "failing (Merge p # acts) = failing acts"
| "failing (Fail e # acts) = True"

fun order_bases ::
  "(string \<Rightarrow> action list option) \<Rightarrow> string \<Rightarrow> val list \<Rightarrow> action list option" where
  "order_bases rec dir [] = Some []"
| "order_bases rec dir (entry # rest) =
     (if truthy entry then
        (case entry of
           VStr s \<Rightarrow>
             (case rec (join dir s) of
                None \<Rightarrow> None
              | Some acts \<Rightarrow>
                  if failing acts then Some acts
                  else (case order_bases rec dir rest of
                          None \<Rightarrow> None
                        | Some acts' \<Rightarrow> Some (acts @ acts')))
         | _ \<Rightarrow> Some [Fail TypeError])
      else order_bases rec dir rest)"

fun merge_order :: "nat \<Rightarrow> filesystem \<Rightarrow> string \<Rightarrow> action list option" where
  "merge_order 0 fs cfg_file = None"
| "merge_order (Suc n) fs cfg_file =
     (case fs cfg_file of
        None \<Rightarrow> Some [Fail IOError]
      | Some Malformed \<Rightarrow> Some [Fail ParseError]
      | Some (Doc yaml_cfg) \<Rightarrow>
          (case setdefault_BASE yaml_cfg of
             Inl e \<Rightarrow> Some [Fail e]
           | Inr base \<Rightarrow>
               (case iterate base of
                  Inl e \<Rightarrow> Some [Fail e]
                | Inr cfgs \<Rightarrow>
                    (case order_bases (merge_order n fs) (dirname cfg_file) cfgs of
                       None \<Rightarrow> None
                     | Some acts \<Rightarrow>
                         if failing acts then Some acts else Some (acts @ [Merge cfg_file])))))"

text \<open>
  Merging in sequence: each \<open>Merge\<close> is one \<open>config.merge_from_file\<close>, which merges every key
  of that file; the first exception ends the sequence.
\<close>

fun merge_in_sequence :: "evaluator \<Rightarrow> filesystem \<Rightarrow> action list \<Rightarrow> config \<Rightarrow> config result" where
  "merge_in_sequence ev fs [] config = Done config"
| "merge_in_sequence ev fs (Merge p # acts) config =
     and_then (merge_from_file ev fs config p) (merge_in_sequence ev fs acts)"
| "merge_in_sequence ev fs (Fail e # acts) config = Raised e config"


subsection \<open>Key paths\<close>

text \<open>
  The value of a configuration at a key path (\<open>config.K1.K2\<close> ...), and the value a loaded
  document gives for a key path.
\<close>

fun lookup :: "config \<Rightarrow> string list \<Rightarrow> config option"
and lookup_items :: "(string \<times> config) list \<Rightarrow> string \<Rightarrow> string list \<Rightarrow> config option" where
  "lookup c [] = Some c"
| "lookup (Leaf v) (k # ks) = None"
| "lookup (Node f kvs) (k # ks) = lookup_items kvs k ks"
| "lookup_items [] k ks = None"
| "lookup_items ((k', c) # kvs) k ks = (if k' = k then lookup c ks else lookup_items kvs k ks)"

fun doc_lookup :: "val \<Rightarrow> string list \<Rightarrow> val option"
and doc_lookup_items :: "(string \<times> val) list \<Rightarrow> string \<Rightarrow> string list \<Rightarrow> val option" where
  "doc_lookup v [] = Some v"
| "doc_lookup (VDict kvs) (k # ks) = doc_lookup_items kvs k ks"
| "doc_lookup v (k # ks) = None"
| "doc_lookup_items [] k ks = None"
| "doc_lookup_items ((k', v) # kvs) k ks = (if k' = k then doc_lookup v ks else doc_lookup_items kvs k ks)"

text \<open>A dictionary of Python has each key once, and so have the dictionaries in it.\<close>

fun dict_ok :: "val \<Rightarrow> bool"
and dict_ok_items :: "(string \<times> val) list \<Rightarrow> bool" where
  "dict_ok (VDict kvs) = dict_ok_items kvs"
| "dict_ok v = True"
| "dict_ok_items [] = True"
| "dict_ok_items ((k, v) # kvs) = (k \<notin> fst ` set kvs \<and> dict_ok v \<and> dict_ok_items kvs)"

fun is_dict :: "val \<Rightarrow> bool" where
  "is_dict (VDict kvs) = True"
| "is_dict v = False"

text \<open>
  What the merge stores for a value \<open>v\<close> of a document that is not a dictionary: the decoded
  value, or its cast between list and tuple.
\<close>

definition stored_as :: "evaluator \<Rightarrow> val \<Rightarrow> val \<Rightarrow> bool" where
  "stored_as ev v w \<longleftrightarrow>
     (let d = decode_cfg_value ev v
      in w = d \<or> cast_list_tuple d TList = Some w \<or> cast_list_tuple d TTuple = Some w)"


section \<open>Properties\<close>

subsection \<open>Stores and lookups\<close>

lemma map_of_setitem: "map_of (setitem k v kvs) k' = (if k' = k then Some v else map_of kvs k')"
  by (induction kvs) auto

lemma getattr_put:
  "getattr (put b n v c) n' = (if b \<and> n' = n \<and> is_node c then Some (Leaf v) else getattr c n')"
  by (cases c) (auto simp: map_of_setitem)

lemma getattr_put2_other: "g' \<noteq> g \<Longrightarrow> getattr (put2 b g n v c) g' = getattr c g'"
  by (cases c) (auto simp: map_of_setitem split: option.splits config.splits)

lemma getattr2_put:
  "n \<noteq> g' \<Longrightarrow> getattr2 (put b n v c) g' n' = getattr2 c g' n'"
  by (simp add: getattr2_def getattr_put)

lemma getattr2_put2:
  "getattr2 (put2 b g n v c) g' n' =
     (if b \<and> g' = g \<and> n' = n \<and> has_group c g then Some (Leaf v) else getattr2 c g' n')"
  by (cases c) (auto simp: getattr2_def has_group_def map_of_setitem split: option.splits config.splits)

lemma has_group_put2 [simp]: "has_group (put2 b g n v c) g' = has_group c g'"
  by (cases c) (auto simp: has_group_def map_of_setitem split: option.splits config.splits)

lemma has_group_put [simp]: "n \<noteq> g' \<Longrightarrow> has_group (put b n v c) g' = has_group c g'"
  by (cases c) (auto simp: has_group_def map_of_setitem split: option.splits config.splits)

lemma open_group_put2 [simp]: "open_group (put2 b g n v c) g' = open_group c g'"
  by (cases c) (auto simp: open_group_def map_of_setitem split: option.splits config.splits)

lemma open_group_put [simp]: "n \<noteq> g' \<Longrightarrow> open_group (put b n v c) g' = open_group c g'"
  by (cases c) (auto simp: open_group_def map_of_setitem split: option.splits config.splits)

lemma is_open_node_put2 [simp]: "is_open_node (put2 b g n v c) = is_open_node c"
  by (cases c) (auto split: option.splits config.splits)

lemma is_open_node_put [simp]: "is_open_node (put b n v c) = is_open_node c"
  by (cases c) auto

lemma guarded_setattr:
  "is_open_node c \<Longrightarrow> valid_type v \<Longrightarrow>
     guarded b (\<lambda>config. setattr config n v) c = Done (put b n v c)"
  by (cases c) (auto simp: guarded_def)

lemma setattr2_put2:
  "is_open_node c \<Longrightarrow> open_group c g \<Longrightarrow> valid_type v \<Longrightarrow>
     setattr2 c g n v = Done (put2 True g n v c)"
  apply (cases c) apply (auto simp: open_group_def split: option.splits)
  subgoal for f kvs n' by (cases n') auto
  done

lemma put2_False [simp]: "put2 False g n v c = c"
  by (cases c) (auto split: option.splits config.splits)

lemma guarded_setattr2:
  "is_open_node c \<Longrightarrow> open_group c g \<Longrightarrow> valid_type v \<Longrightarrow>
     guarded b (\<lambda>config. setattr2 config g n v) c = Done (put2 b g n v c)"
  by (cases b) (auto simp: guarded_def setattr2_put2)


lemma map_of_immutable_items:
  "map_of (immutable_items b kvs) k = map_option (immutable b) (map_of kvs k)"
  by (induction kvs) auto

lemma getattr_immutable: "getattr (immutable b c) n = map_option (immutable b) (getattr c n)"
  by (cases c) (auto simp: map_of_immutable_items)

lemma getattr2_immutable:
  "getattr2 (immutable b c) g n = map_option (immutable b) (getattr2 c g n)"
  by (auto simp: getattr2_def getattr_immutable split: option.splits)

lemma is_open_node_defrost [simp]: "is_open_node (defrost c) = is_node c"
  by (cases c) (auto simp: defrost_def)

lemma has_group_immutable [simp]: "has_group (immutable b c) g = has_group c g"
proof (cases "getattr c g")
  case None
  then show ?thesis by (simp add: has_group_def getattr_immutable)
next
  case (Some x)
  then show ?thesis by (cases x) (simp_all add: has_group_def getattr_immutable)
qed

lemma open_group_defrost [simp]: "open_group (defrost c) g = has_group c g"
proof (cases "getattr c g")
  case None
  then show ?thesis by (simp add: has_group_def open_group_def defrost_def getattr_immutable)
next
  case (Some x)
  then show ?thesis
    by (cases x) (simp_all add: has_group_def open_group_def defrost_def getattr_immutable)
qed

lemma guarded_batch_size:
  assumes "is_open_node c" "open_group c g" "valid_type v"
  shows "guarded b (\<lambda>config. and_then (setattr2 config g n v) (\<lambda>config. setattr2 config g n' v)) c
       = Done (put2 b g n' v (put2 b g n v c))"
  using assms by (cases b) (auto simp: guarded_def setattr2_put2)

lemma guarded_AMP:
  assumes "is_open_node c" "getattr c ''EVAL'' \<noteq> None"
  shows "guarded b set_AMP_not_EVAL c
       = Done (put b ''AMP'' (VBool (\<not> (case getattr c ''EVAL'' of Some e \<Rightarrow> truthy_config e | None \<Rightarrow> False))) c)"
  using assms by (cases c; cases b) (auto simp: guarded_def set_AMP_not_EVAL_def)

lemma getattr_put2_keep:
  "(\<exists>y. getattr (put2 b g n v c) k = Some y) \<longleftrightarrow> (\<exists>y. getattr c k = Some y)"
  by (cases c) (auto simp: map_of_setitem split: option.splits config.splits)

lemma getattr_put_keep:
  "(\<exists>y. getattr c k = Some y) \<Longrightarrow> (\<exists>y. getattr (put b n v c) k = Some y)"
  by (cases c) (auto simp: map_of_setitem split: option.splits config.splits)

lemma update_config_args_eq:
  assumes "well_shaped config" "valid_args args"
  shows "update_config_args config args = Done (applied_args config args)"
proof -
  from assms(1) obtain f kvs where c: "config = Node f kvs"
    by (cases config) (auto simp: well_shaped_def)
  have n: "is_node config" and d: "has_group config ''DATA''" and m: "has_group config ''MODEL''"
    and t: "has_group config ''TRAIN''" and e: "getattr (defrost config) ''EVAL'' \<noteq> None"
    using assms(1) by (auto simp: well_shaped_def defrost_def getattr_immutable)
  show ?thesis
    unfolding c update_config_args_def applied_args_def Let_def
    using assms(2) n[unfolded c] d[unfolded c] m[unfolded c] t[unfolded c] e[unfolded c]
    by (simp add: guarded_setattr2 guarded_setattr guarded_batch_size guarded_AMP valid_args_def
        getattr_put2_keep getattr_put_keep)
qed


lemma has_group_defrost [simp]: "has_group (defrost c) g = has_group c g"
  by (simp add: defrost_def)

lemma update_config_no_file:
  "\<not> truthy_path (cfg args) \<Longrightarrow>
     update_config n ev fs config args = Some (update_config_args config args)"
  by (simp add: update_config_def)

lemmas applied_lookups =
  applied_args_def Let_def getattr2_put2 getattr2_put getattr_put getattr_put2_other

lemma is_node_put2 [simp]: "is_node (put2 b g n v c) = is_node c"
  by (cases c) (auto split: option.splits config.splits)

lemma is_node_put [simp]: "is_node (put b n v c) = is_node c"
  by (cases c) auto

lemma is_node_immutable [simp]: "is_node (immutable b c) = is_node c"
  by (cases c) auto

lemma is_node_defrost [simp]: "is_node (defrost c) = is_node c"
  by (simp add: defrost_def)

lemma getattr_defrost_leaf:
  "getattr c n = Some (Leaf v) \<Longrightarrow> getattr (defrost c) n = Some (Leaf v)"
  by (simp add: defrost_def getattr_immutable)

lemma put_False [simp]: "put False n v c = c"
  by (cases c) auto

lemma well_shaped_C_root: "well_shaped C_root"
  by (simp add: well_shaped_def has_group_def C_root_def C_DATA_def C_MODEL_def C_TRAIN_def)

lemma defrost_C_root: "defrost C_root = C_root"
  by (simp add: defrost_def C_root_def C_DATA_def C_MODEL_def C_TRAIN_def C_TRAIN_OPTIMIZER_def)


subsection \<open>Command-line overrides\<close>

text \<open>
  Claim C3. On a configuration that has the groups \<open>update_config\<close> writes to, and with no
  file to merge, \<open>batch_size=32\<close> yields \<open>DATA.BATCH_SIZE = 32\<close>; \<open>DATA.BATCH_SIZE_EVAL\<close> is
  \<open>32\<close> when \<open>batch_size_eval\<close> is \<open>None\<close> and \<open>16\<close> when it is \<open>16\<close>: the eval option is
  applied after \<open>batch_size\<close> has been stored in both fields.
\<close>

theorem batch_size_precedence:
  assumes "well_shaped config" and "valid_args args" and "\<not> truthy_path (cfg args)"
    and "batch_size args = VInt 32"
    and "batch_size_eval args = VNone \<or> batch_size_eval args = VInt 16"
  shows "\<exists>c'. update_config n ev fs config args = Some (Done c')
           \<and> getattr2 c' ''DATA'' ''BATCH_SIZE'' = Some (Leaf (VInt 32))
           \<and> getattr2 c' ''DATA'' ''BATCH_SIZE_EVAL'' =
               Some (Leaf (if batch_size_eval args = VNone then VInt 32 else VInt 16))"
proof -
  have g: "has_group config ''DATA''"
    using assms(1) by (simp add: well_shaped_def)
  have "update_config n ev fs config args = Some (Done (applied_args config args))"
    using assms(1-3) by (simp add: update_config_no_file update_config_args_eq)
  moreover have "getattr2 (applied_args config args) ''DATA'' ''BATCH_SIZE'' = Some (Leaf (VInt 32))"
    using g assms(4) by (simp add: applied_lookups)
  moreover have "getattr2 (applied_args config args) ''DATA'' ''BATCH_SIZE_EVAL'' =
      Some (Leaf (if batch_size_eval args = VNone then VInt 32 else VInt 16))"
    using g assms(4,5) by (auto simp add: applied_lookups)
  ultimately show ?thesis by blast
qed

theorem batch_size_precedence_witness:
  "\<exists>c'. update_config 0 (\<lambda>s. None) (\<lambda>p. None) C_root (no_args\<lparr>batch_size := VInt 32, batch_size_eval := VInt 16\<rparr>)
            = Some (Done c')
      \<and> getattr2 c' ''DATA'' ''BATCH_SIZE'' = Some (Leaf (VInt 32))
      \<and> getattr2 c' ''DATA'' ''BATCH_SIZE_EVAL'' = Some (Leaf (VInt 16))"
  using batch_size_precedence [of C_root "no_args\<lparr>batch_size := VInt 32, batch_size_eval := VInt 16\<rparr>" 0 "\<lambda>s. None" "\<lambda>p. None"]
  by (simp add: well_shaped_def has_group_def C_root_def C_DATA_def C_MODEL_def C_TRAIN_def valid_args_def no_args_def)

text \<open>
  Claim C4. With \<open>amp\<close> given, \<open>AMP\<close> becomes the negation of \<open>EVAL\<close> as it stands after the
  \<open>eval\<close> option was applied: \<open>eval=True\<close> yields \<open>EVAL = True\<close> and \<open>AMP = False\<close>; \<open>eval=False\<close>
  on a configuration whose \<open>EVAL\<close> is \<open>False\<close> yields \<open>AMP = True\<close>.
\<close>

theorem amp_gating:
  assumes "well_shaped config" and "valid_args args" and "\<not> truthy_path (cfg args)"
    and "amp args = VBool True"
  shows "\<exists>c' e. update_config n ev fs config args = Some (Done c')
           \<and> getattr c' ''EVAL'' = Some e
           \<and> getattr c' ''AMP'' = Some (Leaf (VBool (\<not> truthy_config e)))
           \<and> (eval args = VBool True \<longrightarrow> e = Leaf (VBool True))
           \<and> (eval args = VBool False \<and> getattr config ''EVAL'' = Some (Leaf (VBool False))
                \<longrightarrow> e = Leaf (VBool False))"
proof -
  let ?c = "applied_args config args"
  have n: "is_node config" and "getattr config ''EVAL'' \<noteq> None"
    using assms(1) by (simp_all add: well_shaped_def)
  then obtain e0 where e0: "getattr (defrost config) ''EVAL'' = Some e0"
    by (auto simp: defrost_def getattr_immutable)
  have r: "update_config n ev fs config args = Some (Done ?c)"
    using assms(1-3) by (simp add: update_config_no_file update_config_args_eq)
  define e where "e = (if truthy (eval args) then Leaf (VBool True) else e0)"
  have 1: "getattr ?c ''EVAL'' = Some e"
    using n e0 by (simp add: applied_lookups e_def)
  have 2: "getattr ?c ''AMP'' = Some (Leaf (VBool (\<not> truthy_config e)))"
    using n e0 assms(4) by (simp add: applied_lookups e_def)
  have 3: "eval args = VBool True \<longrightarrow> e = Leaf (VBool True)"
    by (simp add: e_def)
  have 4: "eval args = VBool False \<and> getattr config ''EVAL'' = Some (Leaf (VBool False))
      \<longrightarrow> e = Leaf (VBool False)"
    using e0 by (auto simp: e_def dest: getattr_defrost_leaf)
  from r 1 2 3 4 show ?thesis by blast
qed


theorem amp_gating_witness:
  "\<exists>c'. update_config 0 (\<lambda>s. None) (\<lambda>p. None) C_root (no_args\<lparr>eval := VBool True, amp := VBool True\<rparr>)
            = Some (Done c')
      \<and> getattr c' ''EVAL'' = Some (Leaf (VBool True))
      \<and> getattr c' ''AMP'' = Some (Leaf (VBool False))"
proof -
  let ?a = "no_args\<lparr>eval := VBool True, amp := VBool True\<rparr>"
  have "well_shaped C_root"
    by (simp add: well_shaped_def has_group_def C_root_def C_DATA_def C_MODEL_def C_TRAIN_def)
  moreover have "valid_args ?a" "\<not> truthy_path (cfg ?a)" "amp ?a = VBool True" "eval ?a = VBool True"
    by (simp_all add: valid_args_def no_args_def)
  ultimately show ?thesis
    using amp_gating [of C_root ?a 0 "\<lambda>s. None" "\<lambda>p. None"] by auto
qed



text \<open>
  Claim C5, as stated, fails: the guards are \<open>if args.x:\<close>, so an option that is present
  but false in Python's sense (\<open>0\<close>, the empty string) is not applied. With \<open>TRAIN.LAST_EPOCH\<close>
  set to \<open>5\<close>, \<open>last_epoch=0\<close> leaves it at \<open>5\<close>.
\<close>

theorem present_zero_not_applied:
  "setattr2 C_root ''TRAIN'' ''LAST_EPOCH'' (VInt 5)
     = Done (put2 True ''TRAIN'' ''LAST_EPOCH'' (VInt 5) C_root)
   \<and> update_config_args (put2 True ''TRAIN'' ''LAST_EPOCH'' (VInt 5) C_root)
        (no_args\<lparr>last_epoch := VInt 0\<rparr>)
     = Done (put2 True ''TRAIN'' ''LAST_EPOCH'' (VInt 5) C_root)
   \<and> getattr2 (put2 True ''TRAIN'' ''LAST_EPOCH'' (VInt 5) C_root) ''TRAIN'' ''LAST_EPOCH''
     = Some (Leaf (VInt 5))"
proof -
  let ?c = "put2 True ''TRAIN'' ''LAST_EPOCH'' (VInt 5) C_root"
  have 1: "setattr2 C_root ''TRAIN'' ''LAST_EPOCH'' (VInt 5) = Done ?c"
    by (simp add: C_root_def C_TRAIN_def)
  have d: "defrost ?c = ?c"
    by (simp add: defrost_def C_root_def C_DATA_def C_MODEL_def C_TRAIN_def C_TRAIN_OPTIMIZER_def)
  have w: "well_shaped ?c"
    using well_shaped_C_root by (simp add: well_shaped_def getattr_put2_other)
  have "valid_args (no_args\<lparr>last_epoch := VInt 0\<rparr>)"
    by (simp add: valid_args_def no_args_def)
  from update_config_args_eq [OF w this]
  have 2: "update_config_args ?c (no_args\<lparr>last_epoch := VInt 0\<rparr>) = Done ?c"
    by (simp add: applied_args_def d no_args_def)
  have 3: "getattr2 ?c ''TRAIN'' ''LAST_EPOCH'' = Some (Leaf (VInt 5))"
    using well_shaped_C_root by (simp add: getattr2_put2 well_shaped_def)
  from 1 2 3 show ?thesis by blast
qed

text \<open>
  Claim C5, amended. Each of \<open>dataset\<close>, \<open>batch_size\<close>, \<open>image_size\<close>, \<open>accum_iter\<close>,
  \<open>data_path\<close>, \<open>pretrained\<close>, \<open>resume\<close> and \<open>last_epoch\<close> is stored at its path exactly when it
  is true in Python's sense, and the field keeps its value otherwise; \<open>DATA.BATCH_SIZE_EVAL\<close>
  takes \<open>batch_size_eval\<close> when that is true, else \<open>batch_size\<close> when that is true, else keeps
  its value; a true \<open>eval\<close> stores \<open>True\<close> in \<open>EVAL\<close>; a true \<open>amp\<close> stores the negation of
  \<open>EVAL\<close> in \<open>AMP\<close>.
\<close>

theorem options_applied_when_truthy:
  assumes "well_shaped config" and "valid_args args" and "\<not> truthy_path (cfg args)"
  shows "\<exists>c'. update_config n ev fs config args = Some (Done c')
           \<and> getattr2 c' ''DATA'' ''DATASET'' =
               (if truthy (dataset args) then Some (Leaf (dataset args))
                else getattr2 (defrost config) ''DATA'' ''DATASET'')
           \<and> getattr2 c' ''DATA'' ''BATCH_SIZE'' =
               (if truthy (batch_size args) then Some (Leaf (batch_size args))
                else getattr2 (defrost config) ''DATA'' ''BATCH_SIZE'')
           \<and> getattr2 c' ''DATA'' ''IMAGE_SIZE'' =
               (if truthy (image_size args) then Some (Leaf (image_size args))
                else getattr2 (defrost config) ''DATA'' ''IMAGE_SIZE'')
           \<and> getattr2 c' ''TRAIN'' ''ACCUM_ITER'' =
               (if truthy (accum_iter args) then Some (Leaf (accum_iter args))
                else getattr2 (defrost config) ''TRAIN'' ''ACCUM_ITER'')
           \<and> getattr2 c' ''DATA'' ''DATA_PATH'' =
               (if truthy (data_path args) then Some (Leaf (data_path args))
                else getattr2 (defrost config) ''DATA'' ''DATA_PATH'')
           \<and> getattr2 c' ''MODEL'' ''PRETRAINED'' =
               (if truthy (pretrained args) then Some (Leaf (pretrained args))
                else getattr2 (defrost config) ''MODEL'' ''PRETRAINED'')
           \<and> getattr2 c' ''MODEL'' ''RESUME'' =
               (if truthy (resume args) then Some (Leaf (resume args))
                else getattr2 (defrost config) ''MODEL'' ''RESUME'')
           \<and> getattr2 c' ''TRAIN'' ''LAST_EPOCH'' =
               (if truthy (last_epoch args) then Some (Leaf (last_epoch args))
                else getattr2 (defrost config) ''TRAIN'' ''LAST_EPOCH'')
           \<and> getattr2 c' ''DATA'' ''BATCH_SIZE_EVAL'' =
               (if truthy (batch_size_eval args) then Some (Leaf (batch_size_eval args))
                else if truthy (batch_size args) then Some (Leaf (batch_size args))
                else getattr2 (defrost config) ''DATA'' ''BATCH_SIZE_EVAL'')
           \<and> getattr c' ''EVAL'' =
               (if truthy (eval args) then Some (Leaf (VBool True))
                else getattr (defrost config) ''EVAL'')
           \<and> getattr c' ''AMP'' =
               (if truthy (amp args)
                then Some (Leaf (VBool (\<not> truthy_config (the (getattr c' ''EVAL'')))))
                else getattr (defrost config) ''AMP'')"
proof -
  let ?c = "applied_args config args"
  have n: "is_node config" and d: "has_group config ''DATA''" and m: "has_group config ''MODEL''"
    and t: "has_group config ''TRAIN''" and "getattr config ''EVAL'' \<noteq> None"
    using assms(1) by (simp_all add: well_shaped_def)
  then obtain e0 where e0: "getattr (defrost config) ''EVAL'' = Some e0"
    by (auto simp: defrost_def getattr_immutable)
  have r: "update_config n ev fs config args = Some (Done ?c)"
    using assms by (simp add: update_config_no_file update_config_args_eq)
  have h0: "getattr2 ?c ''DATA'' ''DATASET'' =
      (if truthy (dataset args) then Some (Leaf (dataset args))
       else getattr2 (defrost config) ''DATA'' ''DATASET'')"
    using n d m t e0 by (simp add: applied_lookups)
  have h1: "getattr2 ?c ''DATA'' ''BATCH_SIZE'' =
      (if truthy (batch_size args) then Some (Leaf (batch_size args))
       else getattr2 (defrost config) ''DATA'' ''BATCH_SIZE'')"
    using n d m t e0 by (simp add: applied_lookups)
  have h2: "getattr2 ?c ''DATA'' ''IMAGE_SIZE'' =
      (if truthy (image_size args) then Some (Leaf (image_size args))
       else getattr2 (defrost config) ''DATA'' ''IMAGE_SIZE'')"
    using n d m t e0 by (simp add: applied_lookups)
  have h3: "getattr2 ?c ''TRAIN'' ''ACCUM_ITER'' =
      (if truthy (accum_iter args) then Some (Leaf (accum_iter args))
       else getattr2 (defrost config) ''TRAIN'' ''ACCUM_ITER'')"
    using n d m t e0 by (simp add: applied_lookups)
  have h4: "getattr2 ?c ''DATA'' ''DATA_PATH'' =
      (if truthy (data_path args) then Some (Leaf (data_path args))
       else getattr2 (defrost config) ''DATA'' ''DATA_PATH'')"
    using n d m t e0 by (simp add: applied_lookups)
  have h5: "getattr2 ?c ''MODEL'' ''PRETRAINED'' =
      (if truthy (pretrained args) then Some (Leaf (pretrained args))
       else getattr2 (defrost config) ''MODEL'' ''PRETRAINED'')"
    using n d m t e0 by (simp add: applied_lookups)
  have h6: "getattr2 ?c ''MODEL'' ''RESUME'' =
      (if truthy (resume args) then Some (Leaf (resume args))
       else getattr2 (defrost config) ''MODEL'' ''RESUME'')"
    using n d m t e0 by (simp add: applied_lookups)
  have h7: "getattr2 ?c ''TRAIN'' ''LAST_EPOCH'' =
      (if truthy (last_epoch args) then Some (Leaf (last_epoch args))
       else getattr2 (defrost config) ''TRAIN'' ''LAST_EPOCH'')"
    using n d m t e0 by (simp add: applied_lookups)
  have h8: "getattr2 ?c ''DATA'' ''BATCH_SIZE_EVAL'' =
      (if truthy (batch_size_eval args) then Some (Leaf (batch_size_eval args))
       else if truthy (batch_size args) then Some (Leaf (batch_size args))
       else getattr2 (defrost config) ''DATA'' ''BATCH_SIZE_EVAL'')"
    using n d m t e0 by (simp add: applied_lookups)
  have h9: "getattr ?c ''EVAL'' =
      (if truthy (eval args) then Some (Leaf (VBool True))
       else getattr (defrost config) ''EVAL'')"
    using n d m t e0 by (simp add: applied_lookups)
  have h10: "getattr ?c ''AMP'' =
      (if truthy (amp args)
       then Some (Leaf (VBool (\<not> truthy_config (the (getattr ?c ''EVAL'')))))
       else getattr (defrost config) ''AMP'')"
    using n d m t e0 by (simp add: applied_lookups)
  show ?thesis
    using r h0 h1 h2 h3 h4 h5 h6 h7 h8 h9 h10 by blast
qed



theorem options_applied_when_truthy_witness:
  "\<exists>c'. update_config 0 (\<lambda>s. None) (\<lambda>p. None) C_root (no_args\<lparr>dataset := VStr ''cifar10''\<rparr>)
            = Some (Done c')
      \<and> getattr2 c' ''DATA'' ''DATASET'' = Some (Leaf (VStr ''cifar10''))
      \<and> getattr2 c' ''DATA'' ''IMAGE_SIZE'' = Some (Leaf (VInt 224))"
proof -
  let ?a = "no_args\<lparr>dataset := VStr ''cifar10''\<rparr>"
  have a: "valid_args ?a" "\<not> truthy_path (cfg ?a)"
    by (simp_all add: valid_args_def no_args_def)
  have "getattr2 C_root ''DATA'' ''IMAGE_SIZE'' = Some (Leaf (VInt 224))"
    by (simp add: getattr2_def C_root_def C_DATA_def)
  then show ?thesis
    using options_applied_when_truthy [OF well_shaped_C_root a, of 0 "\<lambda>s. None" "\<lambda>p. None"]
    by (auto simp: defrost_C_root no_args_def)
qed


end
